theory Spec2Isabelle
  imports Complex_Main "HOL-Library.Multiset" "HOL-Library.Log_Nat"
begin

section \<open>Data model (src/frontend/src/types/index.ts)\<close>

text \<open>
  Timestamps are ISO-8601 strings in the source (\<^verbatim>\<open>new Date().toISOString()\<close>) and are
  read back with \<^verbatim>\<open>new Date(s).getTime()\<close>. The model keeps the millisecond value that
  the string denotes, an \<^typ>\<open>int\<close>; the calendar date \<^verbatim>\<open>now.split('T')[0]\<close> is kept as
  the millisecond value of its UTC midnight. Hours are JavaScript numbers (IEEE 754
  doubles) in the source; the model keeps the rational value of the double, and every
  arithmetic result is rounded to a double by \<open>roundDouble\<close> below.
\<close>

type_synonym timestamp = int

datatype TimeEntryStatus = draft | submitted | approved | rejected

datatype BreakType = short_break | lunch | personal

datatype ProjectStatus = active | on_hold | completed | cancelled

record Project =
  id_project :: string
  name :: string
  description_project :: "string option"
  department_id_project :: string
  client_id :: "string option"
  billable_project :: bool
  hourly_rate :: "rat option"
  budget_hours :: "rat option"
  status_project :: ProjectStatus
  start_date :: "timestamp option"
  end_date :: "timestamp option"
  created_at_project :: timestamp
  updated_at_project :: timestamp

record BreakEntry =
  id_break :: string
  time_entry_id :: string
  break_type :: BreakType
  start_time :: timestamp
  end_time :: "timestamp option"
  paid :: bool
  notes_break :: "string option"

record TimeEntry =
  id_entry :: string
  user_id :: string
  organization_id :: string
  date :: timestamp
  clock_in :: timestamp
  clock_out :: "timestamp option"
  break_entries :: "BreakEntry list"
  project_id :: "string option"
  department_id :: "string option"
  description :: "string option"
  billable :: bool
  status :: TimeEntryStatus
  regular_hours :: rat
  overtime_hours :: rat
  total_hours :: rat
  approval_notes :: "string option"
  approved_by :: "string option"
  approved_at :: "timestamp option"
  created_at :: timestamp
  updated_at :: timestamp

text \<open>The outcome of an awaited \<^verbatim>\<open>fetch\<close>: a response with \<^verbatim>\<open>ok\<close> and its JSON body,
  a response that is not \<^verbatim>\<open>ok\<close>, or a rejected promise (network error).\<close>

datatype 'a response = ResponseOk 'a | ResponseNotOk | FetchThrew

section \<open>JavaScript helpers\<close>

text \<open>Decimal rendering of a non-negative integer, as a template literal does for
  \<^verbatim>\<open>Date.now()\<close>.\<close>

definition digit :: "nat \<Rightarrow> char" where
  "digit d = ''0123456789'' ! d"

fun showNat :: "nat \<Rightarrow> string" where
  "showNat n = (if n < 10 then [digit n] else showNat (n div 10) @ [digit (n mod 10)])"

declare showNat.simps [simp del]

text \<open>Truthiness of an optional string: \<^verbatim>\<open>undefined\<close> and \<^verbatim>\<open>''\<close> are falsy.\<close>

definition truthy :: "string option \<Rightarrow> bool" where
  "truthy x = (case x of None \<Rightarrow> False | Some s \<Rightarrow> s \<noteq> [])"

text \<open>\<^verbatim>\<open>String.prototype.trim\<close>: strips white space and line terminators from both ends.
  A \<^typ>\<open>char\<close> is a code unit below 256; the white-space code units in that range are
  TAB, LF, VT, FF, CR, SPACE and NBSP.\<close>

definition isWhiteSpace :: "char \<Rightarrow> bool" where
  "isWhiteSpace c = (of_char c \<in> {9, 10, 11, 12, 13, 32, 160 :: nat})"

definition trim :: "string \<Rightarrow> string" where
  "trim s = rev (dropWhile isWhiteSpace (rev (dropWhile isWhiteSpace s)))"

text \<open>\<^verbatim>\<open>now.split('T')[0]\<close>: the UTC calendar date of a timestamp.\<close>

definition dateOf :: "timestamp \<Rightarrow> timestamp" where
  "dateOf now = now - now mod 86400000"

subsection \<open>Numbers\<close>

text \<open>A finite double is \<open>m * 2 ^ e\<close> with an integer \<open>m\<close> of at most 53 bits.
  \<open>pow2 e\<close> is the power of two with an integer exponent, \<open>exponentOf x\<close> the binary
  exponent of a positive rational (the \<open>e\<close> with \<open>2 ^ e \<le> x < 2 ^ (e + 1)\<close>), and
  \<open>roundHalfEven\<close> rounds to the nearest integer, a tie going to the even one.\<close>

definition pow2 :: "int \<Rightarrow> rat" where
  "pow2 e = (if 0 \<le> e then 2 ^ nat e else 1 / 2 ^ nat (- e))"

definition exponentOf :: "rat \<Rightarrow> int" where
  "exponentOf x =
     (if 1 \<le> x then bitlen \<lfloor>x\<rfloor> - 1
      else (let j = bitlen \<lfloor>1 / x\<rfloor>
            in if x * 2 ^ nat (j - 1) = 1 then 1 - j else - j))"

definition roundHalfEven :: "rat \<Rightarrow> int" where
  "roundHalfEven y =
     (let r = \<lfloor>y\<rfloor>; f = y - of_int r
      in if f < 1 / 2 then r else if 1 / 2 < f then r + 1
         else if even r then r else r + 1)"

text \<open>The double nearest to a rational, ties to even: the result of a correctly rounded
  arithmetic operation whose exact value is \<open>x\<close>, and of reading a decimal literal. The
  definition covers the normal range of doubles; the hours computed from timestamps
  (integers of magnitude at most 8.64e15 for a valid \<^verbatim>\<open>Date\<close>) are zero or lie in it.\<close>

definition roundDouble :: "rat \<Rightarrow> rat" where
  "roundDouble x =
     (if x = 0 then 0
      else (let e = exponentOf \<bar>x\<bar> - 52
            in sgn x * of_int (roundHalfEven (\<bar>x\<bar> / pow2 e)) * pow2 e))"

text \<open>\<^verbatim>\<open>Number(x.toFixed(2))\<close>: \<^verbatim>\<open>toFixed\<close> takes the integer \<open>n\<close> for which \<open>n / 100\<close> is
  nearest to the exact value of the double \<open>x\<close>, the larger one on a tie, treating a
  negative number through its absolute value; \<^verbatim>\<open>Number\<close> reads the decimal string back.\<close>

definition toFixed2 :: "rat \<Rightarrow> rat" where
  "toFixed2 x = (if x < 0 then - roundDouble (of_int \<lfloor>(- x) * 100 + 1 / 2\<rfloor> / 100)
                 else roundDouble (of_int \<lfloor>x * 100 + 1 / 2\<rfloor> / 100))"

text \<open>\<^verbatim>\<open>JSON.parse(localStorage.getItem('completed-time-entries') || '[]')\<close>: the cached list,
  empty when the key is absent.\<close>

definition parseStored :: "TimeEntry list option \<Rightarrow> TimeEntry list" where
  "parseStored st = (case st of None \<Rightarrow> [] | Some es \<Rightarrow> es)"

section \<open>Timer store (src/frontend/src/lib/stores/timer.ts)\<close>

record TimerStore =
  isActive :: bool
  isPaused :: bool
  startTime :: "timestamp option"
  pausedTime :: "timestamp option"
  currentProject :: "Project option"
  currentBreakType :: "BreakType option"
  elapsedTime :: int
  currentTimeEntry :: "TimeEntry option"
  breakStartTime :: "timestamp option"
  description_timer :: string

definition initialTimerStore :: TimerStore where
  "initialTimerStore = \<lparr> isActive = False, isPaused = False, startTime = None,
     pausedTime = None, currentProject = None, currentBreakType = None, elapsedTime = 0,
     currentTimeEntry = None, breakStartTime = None, description_timer = [] \<rparr>"

text \<open>The provisional entry built in both fallback branches of \<^verbatim>\<open>startTimer\<close>;
  \<open>dateNow\<close> is the value of \<^verbatim>\<open>Date.now()\<close>.\<close>

definition newTimeEntry :: "timestamp \<Rightarrow> nat \<Rightarrow> string option \<Rightarrow> TimeEntry" where
  "newTimeEntry now dateNow projectId =
     \<lparr> id_entry = ''temp-'' @ showNat dateNow, user_id = ''current-user'',
       organization_id = ''current-org'', date = dateOf now, clock_in = now,
       clock_out = None, break_entries = [], project_id = projectId, department_id = None,
       description = None, billable = False, status = draft, regular_hours = 0,
       overtime_hours = 0, total_hours = 0, approval_notes = None, approved_by = None,
       approved_at = None, created_at = now, updated_at = now \<rparr>"

definition startTimer ::
  "timestamp \<Rightarrow> nat \<Rightarrow> TimeEntry response \<Rightarrow> string option \<Rightarrow> TimerStore \<Rightarrow> TimerStore" where
  "startTimer now dateNow resp projectId s =
     (case resp of
        ResponseOk timeEntry \<Rightarrow>
          s\<lparr> isActive := True, isPaused := False, startTime := Some now, pausedTime := None,
             elapsedTime := 0, currentTimeEntry := Some timeEntry, currentBreakType := None \<rparr>
      | ResponseNotOk \<Rightarrow>
          s\<lparr> isActive := True, isPaused := False, startTime := Some now, pausedTime := None,
             elapsedTime := 0, currentTimeEntry := Some (newTimeEntry now dateNow projectId),
             currentBreakType := None \<rparr>
      | FetchThrew \<Rightarrow>
          s\<lparr> isActive := True, isPaused := False, startTime := Some now, pausedTime := None,
             elapsedTime := 0, currentTimeEntry := Some (newTimeEntry now dateNow projectId),
             currentBreakType := None \<rparr>)"

definition validateTimerFields :: "TimerStore \<Rightarrow> string list" where
  "validateTimerFields s =
     (if \<not> truthy (map_option id_project (currentProject s))
         \<and> \<not> truthy (Option.bind (currentTimeEntry s) project_id)
      then [''Please select a project''] else [])
     @ (if trim (description_timer s) = []
        then [''Please describe what you're working on''] else [])"

definition startBreak :: "timestamp \<Rightarrow> nat \<Rightarrow> BreakType \<Rightarrow> TimerStore \<Rightarrow> TimerStore" where
  "startBreak now dateNow breakType s =
     (case currentTimeEntry s of
        None \<Rightarrow> s
      | Some entry \<Rightarrow>
          (let newBreakEntry =
                 \<lparr> id_break = ''break-'' @ showNat dateNow, time_entry_id = id_entry entry,
                   break_type = breakType, start_time = now, end_time = None,
                   paid = (breakType = short_break), notes_break = None \<rparr>;
               updatedTimeEntry =
                 entry\<lparr> break_entries := break_entries entry @ [newBreakEntry] \<rparr>
           in s\<lparr> currentBreakType := Some breakType, breakStartTime := Some now,
                 currentTimeEntry := Some updatedTimeEntry \<rparr>))"

definition endBreak :: "timestamp \<Rightarrow> TimerStore \<Rightarrow> TimerStore" where
  "endBreak now s =
     (case (currentTimeEntry s, breakStartTime s) of
        (Some entry, Some _) \<Rightarrow>
          (let breakEntries = break_entries entry in
           if breakEntries \<noteq> [] then
             (let lastBreakIndex = length breakEntries - 1;
                  breakEntries' = breakEntries[lastBreakIndex :=
                     (breakEntries ! lastBreakIndex)\<lparr> end_time := Some now \<rparr>];
                  updatedTimeEntry = entry\<lparr> break_entries := breakEntries' \<rparr>
              in s\<lparr> currentBreakType := None, breakStartTime := None,
                    currentTimeEntry := Some updatedTimeEntry \<rparr>)
           else s)
      | _ \<Rightarrow> s)"

text \<open>The entry closed locally when the clock-out request fails. The source builds it
  twice, as \<^verbatim>\<open>updatedTimeEntry\<close> (response not ok) and as \<^verbatim>\<open>fallbackEntry\<close> (fetch
  threw), with the same statements; \<open>totalMs\<close> and \<open>totalHours\<close> are its two locals.\<close>

definition totalMs :: "timestamp \<Rightarrow> timestamp \<Rightarrow> int" where
  "totalMs clockIn clockOut = clockOut - clockIn"

definition totalHours :: "timestamp \<Rightarrow> timestamp \<Rightarrow> rat" where
  "totalHours clockIn clockOut =
     roundDouble (roundDouble (of_int (totalMs clockIn clockOut)) / (1000 * 60 * 60))"

definition fallbackEntry :: "timestamp \<Rightarrow> string \<Rightarrow> TimeEntry \<Rightarrow> TimeEntry" where
  "fallbackEntry now descr entry =
     entry\<lparr> clock_out := Some now, status := submitted, updated_at := now,
            description := Some descr,
            total_hours := toFixed2 (totalHours (clock_in entry) now),
            regular_hours := min (totalHours (clock_in entry) now) 8,
            overtime_hours := max 0 (roundDouble (totalHours (clock_in entry) now - 8)) \<rparr>"

record StopResult =
  success :: bool
  errors :: "string list option"

text \<open>The \<^verbatim>\<open>set\<close> call that ends a successful \<^verbatim>\<open>stopTimer\<close>; it leaves
  \<^verbatim>\<open>breakStartTime\<close> as it is.\<close>

definition stopped :: "TimerStore \<Rightarrow> TimerStore" where
  "stopped s = s\<lparr> isActive := False, isPaused := False, startTime := None,
     pausedTime := None, currentProject := None, currentBreakType := None,
     elapsedTime := 0, currentTimeEntry := None, description_timer := [] \<rparr>"

text \<open>\<^verbatim>\<open>stopTimer\<close> returns its result; the model gives with it the timer state, the
  cached list under \<^verbatim>\<open>completed-time-entries\<close> and the payloads of the
  \<^verbatim>\<open>timeEntrySubmitted\<close> events dispatched (in a browser, where \<^verbatim>\<open>window\<close> exists).\<close>

record StopOutcome =
  result :: StopResult
  timer :: TimerStore
  cache :: "TimeEntry list option"
  events :: "TimeEntry list"

definition stopTimer ::
  "timestamp \<Rightarrow> TimeEntry response \<Rightarrow> TimerStore \<Rightarrow> TimeEntry list option \<Rightarrow> StopOutcome" where
  "stopTimer now resp s storage =
     (let validationErrors = validateTimerFields s in
      if length validationErrors > 0
      then \<lparr> result = \<lparr> success = False, errors = Some validationErrors \<rparr>,
             timer = s, cache = storage, events = [] \<rparr>
      else case currentTimeEntry s of
        None \<Rightarrow> \<lparr> result = \<lparr> success = False, errors = Some [''No active timer to stop''] \<rparr>,
                  timer = s, cache = storage, events = [] \<rparr>
      | Some entry \<Rightarrow>
          (case resp of
             ResponseOk submittedEntry \<Rightarrow>
               (let finalEntry = submittedEntry\<lparr> description := Some (description_timer s) \<rparr>
                in \<lparr> result = \<lparr> success = True, errors = None \<rparr>, timer = stopped s,
                     cache = Some (take 100 (finalEntry # parseStored storage)),
                     events = [finalEntry] \<rparr>)
           | ResponseNotOk \<Rightarrow>
               (let updatedTimeEntry = fallbackEntry now (description_timer s) entry
                in \<lparr> result = \<lparr> success = True, errors = None \<rparr>, timer = stopped s,
                     cache = Some (take 100 (updatedTimeEntry # parseStored storage)),
                     events = [updatedTimeEntry] \<rparr>)
           | FetchThrew \<Rightarrow>
               (let updatedTimeEntry = fallbackEntry now (description_timer s) entry
                in \<lparr> result = \<lparr> success = True, errors = None \<rparr>, timer = stopped s,
                     cache = Some (take 100 (updatedTimeEntry # parseStored storage)),
                     events = [updatedTimeEntry] \<rparr>)))"

definition setDescription :: "string \<Rightarrow> TimerStore \<Rightarrow> TimerStore" where
  "setDescription d s = s\<lparr> description_timer := d \<rparr>"

section \<open>Time entries store (useTimeEntriesStore)\<close>

record TimeEntriesStore =
  timeEntries :: "TimeEntry list"
  isLoading :: bool
  error :: "string option"

text \<open>\<^verbatim>\<open>Array.prototype.findIndex\<close>, with \<open>None\<close> for \<^verbatim>\<open>-1\<close>.\<close>

fun findIndex :: "('a \<Rightarrow> bool) \<Rightarrow> 'a list \<Rightarrow> nat option" where
  "findIndex P [] = None"
| "findIndex P (x # xs) = (if P x then Some 0 else map_option Suc (findIndex P xs))"

definition addTimeEntry :: "TimeEntry \<Rightarrow> TimeEntriesStore \<Rightarrow> TimeEntriesStore" where
  "addTimeEntry entry s =
     (case findIndex (\<lambda>e. id_entry e = id_entry entry) (timeEntries s) of
        Some existingIndex \<Rightarrow> s\<lparr> timeEntries := (timeEntries s)[existingIndex := entry] \<rparr>
      | None \<Rightarrow> s\<lparr> timeEntries := entry # timeEntries s \<rparr>)"

text \<open>The manual-entry form. \<^verbatim>\<open>date\<close> is kept as the millisecond value of its UTC
  midnight and \<^verbatim>\<open>start_time\<close>, \<^verbatim>\<open>end_time\<close> (\<^verbatim>\<open>HH:MM\<close>) as minutes after midnight;
  the model covers forms that carry a well-formed \<^verbatim>\<open>manual_entry\<close>.\<close>

record ManualEntry =
  date_form :: timestamp
  start_time_form :: int
  end_time_form :: int
  break_duration :: rat

record TimeEntryForm =
  project_id_form :: "string option"
  description_form :: "string option"
  billable_form :: bool
  manual_entry :: ManualEntry

text \<open>\<^verbatim>\<open>`${date}T${time}:00.000Z`\<close>: the wall-clock reading taken as UTC.\<close>

definition wallClock :: "timestamp \<Rightarrow> int \<Rightarrow> timestamp" where
  "wallClock d minutes = d + minutes * 60000"

text \<open>The entry built locally by \<^verbatim>\<open>createManualEntry\<close> when the request did not succeed.
  \<open>parseLocal\<close> is the environment's reading of a wall-clock time without zone
  (\<^verbatim>\<open>new Date(`${date}T${time}:00`).getTime()\<close>), \<open>dateNow\<close> is \<^verbatim>\<open>Date.now()\<close> and \<open>now\<close> is
  \<^verbatim>\<open>new Date().toISOString()\<close>.\<close>

definition localEntry ::
  "(timestamp \<Rightarrow> timestamp) \<Rightarrow> nat \<Rightarrow> timestamp \<Rightarrow> TimeEntryForm \<Rightarrow> TimeEntry" where
  "localEntry parseLocal dateNow now data =
     (let m = manual_entry data;
          clockIn = parseLocal (wallClock (date_form m) (start_time_form m));
          clockOut = parseLocal (wallClock (date_form m) (end_time_form m))
      in \<lparr> id_entry = ''manual-'' @ showNat dateNow, user_id = ''current-user'',
           organization_id = ''current-org'', date = date_form m,
           clock_in = wallClock (date_form m) (start_time_form m),
           clock_out = Some (wallClock (date_form m) (end_time_form m)),
           break_entries = [], project_id = project_id_form data, department_id = None,
           description = description_form data, billable = billable_form data,
           status = submitted,
           regular_hours = min (totalHours clockIn clockOut) 8,
           overtime_hours = max 0 (roundDouble (totalHours clockIn clockOut - 8)),
           total_hours = toFixed2 (totalHours clockIn clockOut),
           approval_notes = None, approved_by = None, approved_at = None,
           created_at = now, updated_at = now \<rparr>)"

text \<open>What an asynchronous action of the store leaves behind: the promise's outcome
  (\<open>Inl\<close> a rejection with its message, \<open>Inr\<close> the entry returned), the store, the cached
  list, and the number of requests sent to the remote service.\<close>

record StoreOutcome =
  outcome :: "string + TimeEntry"
  store :: TimeEntriesStore
  stored :: "TimeEntry list option"
  requests :: nat

definition createManualEntry ::
  "(timestamp \<Rightarrow> timestamp) \<Rightarrow> nat \<Rightarrow> timestamp \<Rightarrow> TimeEntry response \<Rightarrow> TimeEntryForm
     \<Rightarrow> TimeEntriesStore \<Rightarrow> TimeEntry list option \<Rightarrow> StoreOutcome" where
  "createManualEntry parseLocal dateNow now resp data s storage =
     (let s1 = s\<lparr> isLoading := True, error := None \<rparr> in
      case resp of
        ResponseOk newEntry \<Rightarrow>
          \<lparr> outcome = Inr newEntry,
            store = (addTimeEntry newEntry s1)\<lparr> isLoading := False \<rparr>,
            stored = Some (take 100 (newEntry # parseStored storage)), requests = 1 \<rparr>
      | ResponseNotOk \<Rightarrow>
          (let e = localEntry parseLocal dateNow now data
           in \<lparr> outcome = Inr e, store = (addTimeEntry e s1)\<lparr> isLoading := False \<rparr>,
                stored = Some (take 100 (e # parseStored storage)), requests = 1 \<rparr>)
      | FetchThrew \<Rightarrow>
          (let e = localEntry parseLocal dateNow now data
           in \<lparr> outcome = Inr e, store = (addTimeEntry e s1)\<lparr> isLoading := False \<rparr>,
                stored = Some (take 100 (e # parseStored storage)), requests = 1 \<rparr>))"





text \<open>\<^verbatim>\<open>Partial<TimeEntry>\<close>: every property may be absent.\<close>

record TimeEntryPatch =
  id_patch :: "string option"
  user_id_patch :: "string option"
  organization_id_patch :: "string option"
  date_patch :: "timestamp option"
  clock_in_patch :: "timestamp option"
  clock_out_patch :: "timestamp option"
  break_entries_patch :: "BreakEntry list option"
  project_id_patch :: "string option"
  department_id_patch :: "string option"
  description_patch :: "string option"
  billable_patch :: "bool option"
  status_patch :: "TimeEntryStatus option"
  regular_hours_patch :: "rat option"
  overtime_hours_patch :: "rat option"
  total_hours_patch :: "rat option"
  approval_notes_patch :: "string option"
  approved_by_patch :: "string option"
  approved_at_patch :: "timestamp option"
  created_at_patch :: "timestamp option"
  updated_at_patch :: "timestamp option"

definition override :: "'a \<Rightarrow> 'a option \<Rightarrow> 'a" where
  "override old new = (case new of None \<Rightarrow> old | Some v \<Rightarrow> v)"

definition overrideOpt :: "'a option \<Rightarrow> 'a option \<Rightarrow> 'a option" where
  "overrideOpt old new = (case new of None \<Rightarrow> old | Some v \<Rightarrow> Some v)"

text \<open>The spread \<^verbatim>\<open>{ ...entry, ...updates }\<close>.\<close>

definition applyPatch :: "TimeEntry \<Rightarrow> TimeEntryPatch \<Rightarrow> TimeEntry" where
  "applyPatch entry p =
     \<lparr> id_entry = override (id_entry entry) (id_patch p),
       user_id = override (user_id entry) (user_id_patch p),
       organization_id = override (organization_id entry) (organization_id_patch p),
       date = override (date entry) (date_patch p),
       clock_in = override (clock_in entry) (clock_in_patch p),
       clock_out = overrideOpt (clock_out entry) (clock_out_patch p),
       break_entries = override (break_entries entry) (break_entries_patch p),
       project_id = overrideOpt (project_id entry) (project_id_patch p),
       department_id = overrideOpt (department_id entry) (department_id_patch p),
       description = overrideOpt (description entry) (description_patch p),
       billable = override (billable entry) (billable_patch p),
       status = override (status entry) (status_patch p),
       regular_hours = override (regular_hours entry) (regular_hours_patch p),
       overtime_hours = override (overtime_hours entry) (overtime_hours_patch p),
       total_hours = override (total_hours entry) (total_hours_patch p),
       approval_notes = overrideOpt (approval_notes entry) (approval_notes_patch p),
       approved_by = overrideOpt (approved_by entry) (approved_by_patch p),
       approved_at = overrideOpt (approved_at entry) (approved_at_patch p),
       created_at = override (created_at entry) (created_at_patch p),
       updated_at = override (updated_at entry) (updated_at_patch p) \<rparr>"

text \<open>A whole entry passed where a \<^verbatim>\<open>Partial<TimeEntry>\<close> is expected.\<close>

definition patchOf :: "TimeEntry \<Rightarrow> TimeEntryPatch" where
  "patchOf e =
     \<lparr> id_patch = Some (id_entry e), user_id_patch = Some (user_id e),
       organization_id_patch = Some (organization_id e), date_patch = Some (date e),
       clock_in_patch = Some (clock_in e), clock_out_patch = clock_out e,
       break_entries_patch = Some (break_entries e), project_id_patch = project_id e,
       department_id_patch = department_id e, description_patch = description e,
       billable_patch = Some (billable e), status_patch = Some (status e),
       regular_hours_patch = Some (regular_hours e),
       overtime_hours_patch = Some (overtime_hours e),
       total_hours_patch = Some (total_hours e), approval_notes_patch = approval_notes e,
       approved_by_patch = approved_by e, approved_at_patch = approved_at e,
       created_at_patch = Some (created_at e), updated_at_patch = Some (updated_at e) \<rparr>"

definition updateTimeEntry ::
  "string \<Rightarrow> TimeEntryPatch \<Rightarrow> TimeEntriesStore \<Rightarrow> TimeEntriesStore" where
  "updateTimeEntry i updates s =
     s\<lparr> timeEntries :=
          map (\<lambda>entry. if id_entry entry = i then applyPatch entry updates else entry)
            (timeEntries s) \<rparr>"

text \<open>\<^verbatim>\<open>id.startsWith('temp-') || ['1', '2', '3'].includes(id)\<close>.\<close>

definition isLocalEntry :: "string \<Rightarrow> bool" where
  "isLocalEntry i = (take 5 i = ''temp-'' \<or> i \<in> set [''1'', ''2'', ''3''])"

text \<open>\<^verbatim>\<open>editTimeEntry\<close>. A response that is not \<^verbatim>\<open>ok\<close> throws inside the inner
  \<^verbatim>\<open>try\<close>, so it takes the same fallback as a rejected fetch.\<close>

definition editTimeEntry ::
  "string \<Rightarrow> TimeEntryPatch \<Rightarrow> timestamp \<Rightarrow> TimeEntry response
     \<Rightarrow> TimeEntriesStore \<Rightarrow> TimeEntry list option \<Rightarrow> StoreOutcome" where
  "editTimeEntry i data now resp s storage =
     (let s1 = s\<lparr> isLoading := True, error := None \<rparr>;
          currentEntries = timeEntries s1;
          storedEntries = parseStored storage
      in
      if isLocalEntry i then
        (case findIndex (\<lambda>entry. id_entry entry = i) currentEntries of
           Some entryIndex \<Rightarrow>
             (let updatedEntry = (applyPatch (currentEntries ! entryIndex) data)
                                   \<lparr> updated_at := now \<rparr>
              in \<lparr> outcome = Inr updatedEntry,
                   store = s1\<lparr> timeEntries := currentEntries[entryIndex := updatedEntry],
                              isLoading := False \<rparr>,
                   stored =
                     (case findIndex (\<lambda>entry. id_entry entry = i) storedEntries of
                        Some storedIndex \<Rightarrow> Some (storedEntries[storedIndex := updatedEntry])
                      | None \<Rightarrow> Some (storedEntries @ [updatedEntry])),
                   requests = 0 \<rparr>)
         | None \<Rightarrow>
             \<lparr> outcome = Inl ''Entry not found'',
               store = s1\<lparr> isLoading := False, error := Some ''Entry not found'' \<rparr>,
               stored = storage, requests = 0 \<rparr>)
      else
        (case resp of
           ResponseOk updatedEntry \<Rightarrow>
             \<lparr> outcome = Inr updatedEntry,
               store = (updateTimeEntry i (patchOf updatedEntry) s1)\<lparr> isLoading := False \<rparr>,
               stored =
                 (case findIndex (\<lambda>entry. id_entry entry = i) storedEntries of
                    Some storedIndex \<Rightarrow> Some (storedEntries[storedIndex := updatedEntry])
                  | None \<Rightarrow> storage),
               requests = 1 \<rparr>
         | _ \<Rightarrow>
             (case findIndex (\<lambda>entry. id_entry entry = i) currentEntries of
                Some entryIndex \<Rightarrow>
                  (let updatedEntry = (applyPatch (currentEntries ! entryIndex) data)
                                        \<lparr> updated_at := now \<rparr>
                   in \<lparr> outcome = Inr updatedEntry,
                        store = s1\<lparr> timeEntries := currentEntries[entryIndex := updatedEntry],
                                   isLoading := False \<rparr>,
                        stored =
                          (case findIndex (\<lambda>entry. id_entry entry = i) storedEntries of
                             Some storedIndex \<Rightarrow>
                               Some (storedEntries[storedIndex := updatedEntry])
                           | None \<Rightarrow> storage),
                        requests = 1 \<rparr>)
              | None \<Rightarrow>
                  \<lparr> outcome = Inl ''Entry not found for fallback update'',
                    store = s1\<lparr> isLoading := False,
                               error := Some ''Entry not found for fallback update'' \<rparr>,
                    stored = storage, requests = 1 \<rparr>)))"

subsection \<open>Sequences of calls\<close>

text \<open>One call of \<^verbatim>\<open>createManualEntry\<close>: the clock readings, the remote outcome and the
  form. \<open>createManualEntries\<close> runs the calls in order, each on the store and the cached
  list the previous one left, and collects what they return.\<close>

type_synonym CreateCall = "nat \<times> timestamp \<times> TimeEntry response \<times> TimeEntryForm"

fun createManualEntries ::
  "(timestamp \<Rightarrow> timestamp) \<Rightarrow> CreateCall list \<Rightarrow> TimeEntriesStore \<Rightarrow> TimeEntry list option
     \<Rightarrow> (string + TimeEntry) list \<times> TimeEntriesStore \<times> TimeEntry list option" where
  "createManualEntries parseLocal [] s storage = ([], s, storage)"
| "createManualEntries parseLocal ((dateNow, now, resp, data) # calls) s storage =
     (let r = createManualEntry parseLocal dateNow now resp data s storage;
          rest = createManualEntries parseLocal calls (store r) (stored r)
      in (outcome r # fst rest, snd rest))"

text \<open>The entries among a list of outcomes, in order.\<close>

fun returned :: "(string + TimeEntry) list \<Rightarrow> TimeEntry list" where
  "returned [] = []"
| "returned (Inl _ # rs) = returned rs"
| "returned (Inr e # rs) = e # returned rs"

section \<open>Notions of the specification\<close>

text \<open>The open breaks of an entry: those with no end timestamp.\<close>

definition openBreaks :: "TimeEntry \<Rightarrow> BreakEntry list" where
  "openBreaks e = filter (\<lambda>b. end_time b = None) (break_entries e)"

text \<open>The worked duration as the specification words it: the clock span minus the
  durations of the closed breaks that are marked unpaid.\<close>

fun unpaidBreakMs :: "BreakEntry list \<Rightarrow> int" where
  "unpaidBreakMs [] = 0"
| "unpaidBreakMs (b # bs) =
     (case end_time b of
        Some t \<Rightarrow> (if paid b then 0 else t - start_time b) + unpaidBreakMs bs
      | None \<Rightarrow> unpaidBreakMs bs)"

definition workedMsSpec :: "timestamp \<Rightarrow> timestamp \<Rightarrow> BreakEntry list \<Rightarrow> int" where
  "workedMsSpec clockIn clockOut bs = (clockOut - clockIn) - unpaidBreakMs bs"

section \<open>Example sessions and stores\<close>

text \<open>The initial state of the time entries store.\<close>

definition initialStore :: TimeEntriesStore where
  "initialStore = \<lparr> timeEntries = [], isLoading = False, error = None \<rparr>"

text \<open>An environment whose local time zone is UTC.\<close>

definition utcZone :: "timestamp \<Rightarrow> timestamp" where
  "utcZone t = t"

text \<open>A session started offline at 1000 ms with no project, and the same session after
  a lunch break was started at 2000 ms.\<close>

definition firstSession :: TimerStore where
  "firstSession = startTimer 1000 1000 FetchThrew None initialTimerStore"

definition breakSession :: TimerStore where
  "breakSession = startBreak 2000 2000 lunch firstSession"

definition onBreakEntry :: TimeEntry where
  "onBreakEntry = (newTimeEntry 1000 1000 None)\<lparr> break_entries :=
     [\<lparr> id_break = ''break-2000'', time_entry_id = ''temp-1000'', break_type = lunch,
        start_time = 2000, end_time = None, paid = False, notes_break = None \<rparr>] \<rparr>"

text \<open>A session on project 1 started offline at 0 and described, stopped one minute
  later in the examples below.\<close>

definition minuteSession :: TimerStore where
  "minuteSession = setDescription ''standup''
      (startTimer 0 0 FetchThrew (Some ''1'') initialTimerStore)"

text \<open>A session on project 1 started offline at 0, with an unpaid lunch break from hour 4
  to hour 5, and its in-flight entry.\<close>

definition lunchSession :: TimerStore where
  "lunchSession = setDescription ''work'' (endBreak 18000000 (startBreak 14400000 1 lunch
      (startTimer 0 0 FetchThrew (Some ''1'') initialTimerStore)))"

definition lunchEntry :: TimeEntry where
  "lunchEntry = (newTimeEntry 0 0 (Some ''1''))\<lparr> break_entries :=
     [\<lparr> id_break = ''break-1'', time_entry_id = ''temp-0'', break_type = lunch,
        start_time = 14400000, end_time = Some 18000000, paid = False,
        notes_break = None \<rparr>] \<rparr>"

text \<open>Manual-entry forms for 2024-01-01: one minute from 09:00 to 09:01, and a range
  that runs backwards, from 17:00 to 09:00.\<close>

definition minuteForm :: TimeEntryForm where
  "minuteForm = \<lparr> project_id_form = Some ''1'', description_form = Some ''standup'',
      billable_form = False,
      manual_entry = \<lparr> date_form = 1704067200000, start_time_form = 540,
                        end_time_form = 541, break_duration = 0 \<rparr> \<rparr>"


definition minuteCall :: CreateCall where
  "minuteCall = (5, 7, FetchThrew, minuteForm)"

text \<open>A one-hour submitted entry with the given id, \<^verbatim>\<open>created_at\<close> and \<^verbatim>\<open>updated_at\<close>;
  a cached list of three such entries, and a store holding later copies of two of them.\<close>

definition entryAt :: "string \<Rightarrow> timestamp \<Rightarrow> timestamp \<Rightarrow> TimeEntry" where
  "entryAt i created updated =
     \<lparr> id_entry = i, user_id = ''current-user'', organization_id = ''current-org'',
       date = 0, clock_in = 0, clock_out = Some 3600000, break_entries = [],
       project_id = Some ''1'', department_id = None, description = Some ''work'',
       billable = False, status = submitted, regular_hours = 1, overtime_hours = 0,
       total_hours = 1, approval_notes = None, approved_by = None, approved_at = None,
       created_at = created, updated_at = updated \<rparr>"





text \<open>A patch that sets the description only.\<close>

definition emptyPatch :: TimeEntryPatch where
  "emptyPatch = \<lparr> id_patch = None, user_id_patch = None, organization_id_patch = None,
     date_patch = None, clock_in_patch = None, clock_out_patch = None,
     break_entries_patch = None, project_id_patch = None, department_id_patch = None,
     description_patch = None, billable_patch = None, status_patch = None,
     regular_hours_patch = None, overtime_hours_patch = None, total_hours_patch = None,
     approval_notes_patch = None, approved_by_patch = None, approved_at_patch = None,
     created_at_patch = None, updated_at_patch = None \<rparr>"

definition editedPatch :: TimeEntryPatch where
  "editedPatch = emptyPatch\<lparr> description_patch := Some ''edited'' \<rparr>"

text \<open>The store and the cached list after \<open>minuteForm\<close> was created while the remote
  service was unreachable; the entry's id is \<^verbatim>\<open>manual-5\<close>.\<close>

definition offlineStore :: TimeEntriesStore where
  "offlineStore = store (createManualEntry utcZone 5 7 FetchThrew minuteForm initialStore None)"

definition offlineCache :: "TimeEntry list option" where
  "offlineCache = stored (createManualEntry utcZone 5 7 FetchThrew minuteForm initialStore None)"

section \<open>Auxiliary lemmas\<close>

lemma update_last:
  "xs \<noteq> [] \<Longrightarrow> xs[length xs - 1 := f (xs ! (length xs - 1))] = butlast xs @ [f (last xs)]"
  by (cases xs rule: rev_cases) (simp_all add: nth_append)

lemma trim_white: "list_all isWhiteSpace d \<Longrightarrow> trim d = []"
proof -
  assume "list_all isWhiteSpace d"
  then have "dropWhile isWhiteSpace d = []"
    by (simp add: dropWhile_eq_Nil_conv list_all_iff)
  then show ?thesis unfolding trim_def by (simp only: rev.simps dropWhile.simps)
qed

lemma showNat_1000: "showNat 1000 = ''1000''"
  by code_simp

lemma showNat_2000: "showNat 2000 = ''2000''"
  by code_simp

lemma breakSession_entry: "currentTimeEntry breakSession = Some onBreakEntry"
  by (simp add: breakSession_def firstSession_def startBreak_def startTimer_def
        onBreakEntry_def newTimeEntry_def initialTimerStore_def showNat_1000 showNat_2000)

lemma breakSession_start: "breakStartTime breakSession = Some 2000"
  by (simp add: breakSession_def firstSession_def startBreak_def startTimer_def)

lemma lunchSession_valid: "validateTimerFields lunchSession = []"
  by code_simp

lemma lunchSession_entry: "currentTimeEntry lunchSession = Some lunchEntry"
  by code_simp

subsection \<open>Rounding to a double\<close>

lemma pow2_powi: "pow2 e = 2 powi e"
  by (simp add: pow2_def power_int_def field_simps)



lemma pow2_strict_mono: "a < b \<Longrightarrow> pow2 a < pow2 b"
  by (simp add: pow2_powi power_int_strict_increasing)


lemma exponentOf_upper:
  assumes "0 < x"
  shows "x < pow2 (exponentOf x + 1)"
proof (cases "1 \<le> x")
  case True
  then have n: "0 < \<lfloor>x\<rfloor>" by simp
  from bitlen_bounds [OF n] have "\<lfloor>x\<rfloor> < 2 ^ nat (bitlen \<lfloor>x\<rfloor>)" by simp
  then have "x < of_int (2 ^ nat (bitlen \<lfloor>x\<rfloor>))"
    by (simp only: floor_less_iff)
  then have "x < 2 ^ nat (bitlen \<lfloor>x\<rfloor>)" by simp
  with True bitlen_nonneg [of "\<lfloor>x\<rfloor>"] show ?thesis
    by (simp add: exponentOf_def pow2_def)
next
  case False
  define j where "j = bitlen \<lfloor>1 / x\<rfloor>"
  from False assms have inv: "1 < 1 / x" by simp
  then have n: "0 < \<lfloor>1 / x\<rfloor>" by simp
  then have j1: "1 \<le> j"
    unfolding j_def
    using bitlen_eq_zero_iff [of "\<lfloor>1 / x\<rfloor>"] bitlen_nonneg [of "\<lfloor>1 / x\<rfloor>"] by linarith
  show ?thesis
  proof (cases "x * 2 ^ nat (j - 1) = 1")
    case True
    then have x: "x = 1 / 2 ^ nat (j - 1)" by (simp add: field_simps)
    have ex: "exponentOf x = 1 - j"
      using False True by (simp add: exponentOf_def Let_def j_def)
    have "j \<noteq> 1" using True False by auto
    with j1 have "pow2 (1 - j) = 1 / 2 ^ nat (j - 1)" by (simp add: pow2_def)
    with x have "x = pow2 (1 - j)" by simp
    also have "\<dots> < pow2 (1 - j + 1)" by (rule pow2_strict_mono) simp
    finally show ?thesis unfolding ex .
  next
    case ne: False
    have ex: "exponentOf x = - j"
      using False ne by (simp add: exponentOf_def Let_def j_def)
    from bitlen_bounds [OF n] have "2 ^ nat (j - 1) \<le> \<lfloor>1 / x\<rfloor>" by (simp add: j_def)
    then have "(of_int (2 ^ nat (j - 1)) :: rat) \<le> 1 / x"
      by (simp only: le_floor_iff)
    then have "(2::rat) ^ nat (j - 1) \<le> 1 / x" by simp
    with assms have "x * 2 ^ nat (j - 1) \<le> 1" by (simp add: field_simps)
    with ne have "x * 2 ^ nat (j - 1) < 1" by simp
    then have lt: "x < 1 / 2 ^ nat (j - 1)" by (simp add: field_simps)
    have "pow2 (- j + 1) = 1 / 2 ^ nat (j - 1)"
      using j1 by (cases "j = 1") (simp_all add: pow2_def)
    with lt show ?thesis unfolding ex by simp
  qed
qed






text \<open>Known doubles: 0.1 and 0.02; an integer above \<open>2 ^ 53\<close> on a tie; the quotient
  3618000 / 3600000, which lies below 1.005 and is printed as 1.00; and 8.1 - 8.\<close>

lemma roundDouble_examples:
  "roundDouble (1 / 10) = 3602879701896397 / 36028797018963968
   \<and> roundDouble (1 / 50) = 5764607523034235 / 288230376151711744
   \<and> roundDouble 9007199254740993 = 9007199254740992
   \<and> roundDouble (- 8) = - 8"
  by code_simp

lemma totalHours_examples:
  "totalHours 0 3618000 = 1131529406376837 / 1125899906842624
   \<and> toFixed2 (totalHours 0 3618000) = 1
   \<and> totalHours 0 29160000 = 4559894622712627 / 562949953421312
   \<and> roundDouble (totalHours 0 29160000 - 8) = 56294995342131 / 562949953421312"
  by code_simp



text \<open>What the stop fallback stores: only the total goes through \<^verbatim>\<open>toFixed(2)\<close>.\<close>

lemma fallbackEntry_hours:
  "total_hours (fallbackEntry now d entry) = toFixed2 (totalHours (clock_in entry) now)
   \<and> regular_hours (fallbackEntry now d entry) = min (totalHours (clock_in entry) now) 8
   \<and> overtime_hours (fallbackEntry now d entry)
       = max 0 (roundDouble (totalHours (clock_in entry) now - 8))"
  by (simp add: fallbackEntry_def)

subsection \<open>The merge loop\<close>














subsection \<open>Adding and creating entries\<close>



lemma take_append_take: "take n (xs @ take n ys) = take n (xs @ ys)"
  by (simp add: min_def)

lemma createManualEntry_outcome:
  "\<exists>e. outcome (createManualEntry parseLocal dateNow now resp data s storage) = Inr e
       \<and> stored (createManualEntry parseLocal dateNow now resp data s storage)
           = Some (take 100 (e # parseStored storage))
       \<and> e = (case resp of ResponseOk newEntry \<Rightarrow> newEntry
                | _ \<Rightarrow> localEntry parseLocal dateNow now data)"
  by (cases resp) (simp_all add: createManualEntry_def Let_def)

lemma createManualEntries_Cons:
  "createManualEntries parseLocal ((dateNow, now, resp, data) # calls) s storage =
     (outcome (createManualEntry parseLocal dateNow now resp data s storage)
        # fst (createManualEntries parseLocal calls
                (store (createManualEntry parseLocal dateNow now resp data s storage))
                (stored (createManualEntry parseLocal dateNow now resp data s storage))),
      snd (createManualEntries parseLocal calls
             (store (createManualEntry parseLocal dateNow now resp data s storage))
             (stored (createManualEntry parseLocal dateNow now resp data s storage))))"
  by (simp add: Let_def)

lemma createManualEntries_stored:
  "snd (snd (createManualEntries parseLocal calls s storage)) =
     (if calls = [] then storage
      else Some (take 100 (rev (returned (fst (createManualEntries parseLocal calls s storage)))
                            @ parseStored storage)))
   \<and> length (returned (fst (createManualEntries parseLocal calls s storage))) = length calls"
proof (induction calls arbitrary: s storage)
  case Nil
  show ?case by simp
next
  case (Cons c calls)
  obtain dateNow now resp data where c: "c = (dateNow, now, resp, data)"
    by (cases c) auto
  define r where "r = createManualEntry parseLocal dateNow now resp data s storage"
  define rest where "rest = createManualEntries parseLocal calls (store r) (stored r)"
  obtain e where e: "outcome r = Inr e"
    and st: "stored r = Some (take 100 (e # parseStored storage))"
    unfolding r_def using createManualEntry_outcome by blast
  have run: "createManualEntries parseLocal (c # calls) s storage = (outcome r # fst rest, snd rest)"
    unfolding c r_def rest_def by (rule createManualEntries_Cons)
  have ih: "snd (snd rest) =
      (if calls = [] then stored r
       else Some (take 100 (rev (returned (fst rest)) @ parseStored (stored r))))"
    and len: "length (returned (fst rest)) = length calls"
    unfolding rest_def using Cons.IH [of "store r" "stored r"] by simp_all
  have ps: "parseStored (stored r) = take 100 (e # parseStored storage)"
    unfolding st by (simp only: parseStored_def option.case)
  have created: "returned (fst (createManualEntries parseLocal (c # calls) s storage))
                   = e # returned (fst rest)"
    unfolding run by (simp add: e)
  have "snd (snd (createManualEntries parseLocal (c # calls) s storage)) =
          Some (take 100 (rev (e # returned (fst rest)) @ parseStored storage))"
  proof (cases "calls = []")
    case True
    then have "returned (fst rest) = []" using len by simp
    with True show ?thesis unfolding run using ih st by simp
  next
    case False
    have "take 100 (rev (returned (fst rest)) @ take 100 (e # parseStored storage))
            = take 100 (rev (returned (fst rest)) @ e # parseStored storage)"
      by (rule take_append_take)
    with False show ?thesis unfolding run using ih ps by simp
  qed
  with created len show ?case by simp
qed

subsection \<open>Which edits reach the remote service\<close>

lemma manual_not_local: "isLocalEntry (''manual-'' @ n) = False"
  by (simp add: isLocalEntry_def)

lemma localEntry_id:
  "id_entry (localEntry parseLocal dateNow now data) = ''manual-'' @ showNat dateNow"
  by (simp add: localEntry_def Let_def)

lemma editTimeEntry_remote:
  "\<not> isLocalEntry i \<Longrightarrow> requests (editTimeEntry i data now resp s storage) = 1"
  by (simp add: editTimeEntry_def Let_def split: response.splits option.splits)

text \<open>An id that \<open>isLocalEntry\<close> recognises is edited without a request, and the outcome
  does not depend on what the remote service would have answered.\<close>

lemma editTimeEntry_local:
  "isLocalEntry i \<Longrightarrow>
     editTimeEntry i data now resp s storage = editTimeEntry i data now resp' s storage
     \<and> requests (editTimeEntry i data now resp s storage) = 0"
  by (simp add: editTimeEntry_def Let_def split: option.splits)

text \<open>Every id minted by \<open>localEntry\<close> is sent to the remote service when edited.\<close>

lemma editTimeEntry_manual_id:
  "isLocalEntry (id_entry (localEntry parseLocal dateNow now data)) = False
   \<and> requests (editTimeEntry (id_entry (localEntry parseLocal dateNow now data))
                  patch now' resp s storage) = 1"
proof -
  have "\<not> isLocalEntry (id_entry (localEntry parseLocal dateNow now data))"
    unfolding localEntry_id by (simp only: manual_not_local simp_thms)
  then show ?thesis by (simp add: editTimeEntry_remote)
qed

section \<open>Claims about the hours calculation\<close>

text \<open>
  C1. The specification asks that the stored fields satisfy
  \<open>total_hours = regular_hours + overtime_hours\<close> with all three rounded to two decimals.
  The code passes \<^verbatim>\<open>total_hours\<close> through \<^verbatim>\<open>toFixed(2)\<close> and the other two fields not.
  For one worked minute, in the stop fallback (clock-in 0, stop at 60000 ms, request
  failed) and in manual-entry creation (09:00 to 09:01, request failed), it stores the
  double 0.02 as \<open>total_hours\<close>, the double nearest 1/60 (0.016666666666666666) as
  \<open>regular_hours\<close> and 0 as \<open>overtime_hours\<close>: the regular hours are not rounded to two
  decimals (rounding them would give 0.02) and the parts do not add up to the total.
\<close>

theorem hours_rounding_mismatch:
  "map (\<lambda>e. (total_hours e, regular_hours e, overtime_hours e))
       (events (stopTimer 60000 FetchThrew minuteSession None))
     = [(roundDouble (1 / 50), roundDouble (1 / 60), 0)]
   \<and> map (\<lambda>e. (total_hours e, regular_hours e, overtime_hours e))
       (returned [outcome (createManualEntry utcZone 5 7 FetchThrew minuteForm initialStore None)])
     = [(roundDouble (1 / 50), roundDouble (1 / 60), 0)]
   \<and> roundDouble (1 / 50) = 5764607523034235 / 288230376151711744
   \<and> roundDouble (1 / 60) = 4803839602528529 / 288230376151711744
   \<and> toFixed2 (roundDouble (1 / 60)) = roundDouble (1 / 50)"
  by code_simp

text \<open>
  C2 (as the code has it). The worked duration used by the hours calculation is a clock
  span alone; no break is subtracted, paid or unpaid. In the stop fallback the span is
  \<open>now - clock_in\<close> of the entry being closed: \<open>total_hours\<close> is that span in hours put
  through \<^verbatim>\<open>toFixed(2)\<close> whatever the break list is, two entries closed over the same span
  get the same three hour fields whatever their break lists, and this closed entry is
  the one \<^verbatim>\<open>stopTimer\<close> publishes when the request fails. In manual-entry creation the
  entry has no breaks, the form's \<^verbatim>\<open>break_duration\<close> is not read, and \<open>total_hours\<close> is
  the span between the form's end and start times, as the environment reads them in
  local time, put through \<^verbatim>\<open>toFixed(2)\<close>.
\<close>

theorem hours_from_clock_span_only:
  "total_hours (fallbackEntry now d (entry\<lparr> break_entries := bs \<rparr>))
      = toFixed2 (totalHours (clock_in entry) now)
   \<and> totalHours (clock_in entry) now
      = roundDouble (roundDouble (of_int (now - clock_in entry)) / 3600000)
   \<and> (now - clock_in entry = now' - clock_in entry' \<longrightarrow>
        total_hours (fallbackEntry now d entry) = total_hours (fallbackEntry now' d' entry')
        \<and> regular_hours (fallbackEntry now d entry) = regular_hours (fallbackEntry now' d' entry')
        \<and> overtime_hours (fallbackEntry now d entry)
            = overtime_hours (fallbackEntry now' d' entry'))
   \<and> (validateTimerFields s = [] \<and> currentTimeEntry s = Some entry
        \<and> (resp = ResponseNotOk \<or> resp = FetchThrew)
       \<longrightarrow> events (stopTimer now resp s storage)
             = [fallbackEntry now (description_timer s) entry])
   \<and> break_entries (localEntry parseLocal dateNow created data) = []
   \<and> total_hours (localEntry parseLocal dateNow created data)
      = toFixed2 (totalHours
          (parseLocal (wallClock (date_form (manual_entry data)) (start_time_form (manual_entry data))))
          (parseLocal (wallClock (date_form (manual_entry data)) (end_time_form (manual_entry data)))))
   \<and> localEntry parseLocal dateNow created
        (data\<lparr> manual_entry := (manual_entry data)\<lparr> break_duration := b \<rparr> \<rparr>)
      = localEntry parseLocal dateNow created data"
proof (intro conjI impI)
  show "total_hours (fallbackEntry now d (entry\<lparr> break_entries := bs \<rparr>))
      = toFixed2 (totalHours (clock_in entry) now)"
    by (simp add: fallbackEntry_def)
  show "totalHours (clock_in entry) now
      = roundDouble (roundDouble (of_int (now - clock_in entry)) / 3600000)"
    by (simp add: totalHours_def totalMs_def)
next
  assume span: "now - clock_in entry = now' - clock_in entry'"
  then have eq: "totalHours (clock_in entry) now = totalHours (clock_in entry') now'"
    by (simp add: totalHours_def totalMs_def)
  show "total_hours (fallbackEntry now d entry) = total_hours (fallbackEntry now' d' entry')"
    by (simp add: fallbackEntry_def eq)
  show "regular_hours (fallbackEntry now d entry) = regular_hours (fallbackEntry now' d' entry')"
    by (simp add: fallbackEntry_def eq)
  show "overtime_hours (fallbackEntry now d entry) = overtime_hours (fallbackEntry now' d' entry')"
    by (simp add: fallbackEntry_def eq)
next
  assume "validateTimerFields s = [] \<and> currentTimeEntry s = Some entry
        \<and> (resp = ResponseNotOk \<or> resp = FetchThrew)"
  then show "events (stopTimer now resp s storage)
             = [fallbackEntry now (description_timer s) entry]"
    by (auto simp add: stopTimer_def Let_def)
next
  show "break_entries (localEntry parseLocal dateNow created data) = []"
    by (simp add: localEntry_def Let_def)
  show "total_hours (localEntry parseLocal dateNow created data)
      = toFixed2 (totalHours
          (parseLocal (wallClock (date_form (manual_entry data)) (start_time_form (manual_entry data))))
          (parseLocal (wallClock (date_form (manual_entry data)) (end_time_form (manual_entry data)))))"
    by (simp add: localEntry_def Let_def)
  show "localEntry parseLocal dateNow created
        (data\<lparr> manual_entry := (manual_entry data)\<lparr> break_duration := b \<rparr> \<rparr>)
      = localEntry parseLocal dateNow created data"
    by (simp add: localEntry_def Let_def)
qed

theorem hours_from_clock_span_only_witness:
  "32400000 - clock_in lunchEntry = 32400000 - clock_in (lunchEntry\<lparr> break_entries := [] \<rparr>)
   \<and> break_entries lunchEntry \<noteq> []
   \<and> total_hours (fallbackEntry 32400000 ''work'' lunchEntry)
       = total_hours (fallbackEntry 32400000 ''work'' (lunchEntry\<lparr> break_entries := [] \<rparr>))
   \<and> regular_hours (fallbackEntry 32400000 ''work'' lunchEntry)
       = regular_hours (fallbackEntry 32400000 ''work'' (lunchEntry\<lparr> break_entries := [] \<rparr>))
   \<and> overtime_hours (fallbackEntry 32400000 ''work'' lunchEntry)
       = overtime_hours (fallbackEntry 32400000 ''work'' (lunchEntry\<lparr> break_entries := [] \<rparr>))
   \<and> validateTimerFields lunchSession = [] \<and> currentTimeEntry lunchSession = Some lunchEntry
   \<and> events (stopTimer 32400000 FetchThrew lunchSession None)
       = [fallbackEntry 32400000 (description_timer lunchSession) lunchEntry]
   \<and> total_hours (fallbackEntry 32400000 ''work''
                     (lunchEntry\<lparr> break_entries := break_entries lunchEntry \<rparr>))
       = toFixed2 (totalHours (clock_in lunchEntry) 32400000)"
proof -
  have span: "32400000 - clock_in lunchEntry
                = 32400000 - clock_in (lunchEntry\<lparr> break_entries := [] \<rparr>)"
    by simp
  have ne: "break_entries lunchEntry \<noteq> []" by (simp add: lunchEntry_def)
  note t = hours_from_clock_span_only [where now = 32400000 and d = "''work''"
      and entry = lunchEntry and bs = "break_entries lunchEntry"
      and now' = 32400000 and d' = "''work''"
      and entry' = "lunchEntry\<lparr> break_entries := [] \<rparr>"
      and s = lunchSession and resp = FetchThrew
      and storage = None and parseLocal = utcZone and dateNow = 0 and created = 0
      and data = minuteForm and b = 0]
  from t span ne lunchSession_valid lunchSession_entry show ?thesis by blast
qed

text \<open>
  C2 as stated fails: a nine-hour span with one closed, unpaid lunch hour has eight
  worked hours in the specification's sense, and the stop fallback stores nine
  (eight regular, one overtime).
\<close>

theorem unpaid_break_not_subtracted:
  "map unpaidBreakMs (map break_entries (events (stopTimer 32400000 FetchThrew lunchSession None)))
     = [3600000]
   \<and> map clock_in (events (stopTimer 32400000 FetchThrew lunchSession None)) = [0]
   \<and> map clock_out (events (stopTimer 32400000 FetchThrew lunchSession None)) = [Some 32400000]
   \<and> workedMsSpec 0 32400000 (break_entries lunchEntry) = 28800000
   \<and> map total_hours (events (stopTimer 32400000 FetchThrew lunchSession None)) = [9]
   \<and> map regular_hours (events (stopTimer 32400000 FetchThrew lunchSession None)) = [8]
   \<and> map overtime_hours (events (stopTimer 32400000 FetchThrew lunchSession None)) = [1]"
  by code_simp

section \<open>Claims about the timer\<close>

text \<open>
  C3 (as the code has it). \<^verbatim>\<open>startTimer\<close> has no guard: a second call while a session is
  active replaces the session. After two consecutive calls the state is the one the
  second call alone would produce: the session is active, its start timestamp is the
  second call's, its elapsed time is 0 and its in-flight entry is the second call's
  (the remote one, or a new provisional one).
\<close>

theorem startTimer_overwrites:
  "startTimer now2 d2 r2 p2 (startTimer now1 d1 r1 p1 s) = startTimer now2 d2 r2 p2 s
   \<and> isActive (startTimer now2 d2 r2 p2 (startTimer now1 d1 r1 p1 s))
   \<and> startTime (startTimer now2 d2 r2 p2 (startTimer now1 d1 r1 p1 s)) = Some now2
   \<and> elapsedTime (startTimer now2 d2 r2 p2 (startTimer now1 d1 r1 p1 s)) = 0
   \<and> currentTimeEntry (startTimer now2 d2 r2 p2 (startTimer now1 d1 r1 p1 s))
       = Some (case r2 of ResponseOk timeEntry \<Rightarrow> timeEntry | _ \<Rightarrow> newTimeEntry now2 d2 p2)"
  by (cases r1; cases r2) (simp_all add: startTimer_def)

text \<open>
  C3 as stated fails: a session started at 1000 ms and started again at 2000 ms has the
  start timestamp 2000 and a new in-flight entry; the second call was not a no-op.
\<close>

theorem startTimer_twice_restarts:
  "isActive firstSession
   \<and> startTime firstSession = Some 1000
   \<and> map_option id_entry (currentTimeEntry firstSession) = Some ''temp-1000''
   \<and> startTime (startTimer 2000 2000 FetchThrew None firstSession) = Some 2000
   \<and> map_option id_entry (currentTimeEntry (startTimer 2000 2000 FetchThrew None firstSession))
       = Some ''temp-2000''
   \<and> startTimer 2000 2000 FetchThrew None firstSession \<noteq> firstSession"
  by code_simp

text \<open>
  C4. When no project is selected (neither the current project nor the in-flight entry
  has a project id) and the description is empty or white space only, \<^verbatim>\<open>stopTimer\<close>
  returns a failure with exactly the two validation messages and changes nothing: the
  timer state (so the active flag, start time, elapsed time and in-flight entry) and the
  cached list are as before, no event is published, and the outcome does not depend on
  the remote service.
\<close>

theorem stopTimer_validation_failure:
  assumes "\<not> truthy (map_option id_project (currentProject s))"
    and "\<not> truthy (Option.bind (currentTimeEntry s) project_id)"
    and "list_all isWhiteSpace (description_timer s)"
  shows "stopTimer now resp s storage =
           \<lparr> result = \<lparr> success = False,
                         errors = Some [''Please select a project'',
                                        ''Please describe what you're working on''] \<rparr>,
             timer = s, cache = storage, events = [] \<rparr>"
  using assms by (simp add: stopTimer_def validateTimerFields_def trim_white)

theorem stopTimer_validation_failure_witness:
  "\<not> truthy (map_option id_project (currentProject (setDescription ''  '' firstSession)))
   \<and> \<not> truthy (Option.bind (currentTimeEntry (setDescription ''  '' firstSession)) project_id)
   \<and> list_all isWhiteSpace (description_timer (setDescription ''  '' firstSession))
   \<and> isActive (setDescription ''  '' firstSession)
   \<and> stopTimer 5000 FetchThrew (setDescription ''  '' firstSession) None =
        \<lparr> result = \<lparr> success = False,
                      errors = Some [''Please select a project'',
                                     ''Please describe what you're working on''] \<rparr>,
          timer = setDescription ''  '' firstSession, cache = None, events = [] \<rparr>"
proof -
  have a: "\<not> truthy (map_option id_project (currentProject (setDescription ''  '' firstSession)))"
    by (simp add: setDescription_def firstSession_def startTimer_def initialTimerStore_def
          truthy_def)
  have b: "\<not> truthy (Option.bind (currentTimeEntry (setDescription ''  '' firstSession)) project_id)"
    by (simp add: setDescription_def firstSession_def startTimer_def newTimeEntry_def
          truthy_def)
  have c: "list_all isWhiteSpace (description_timer (setDescription ''  '' firstSession))"
    by (simp add: setDescription_def isWhiteSpace_def)
  have d: "isActive (setDescription ''  '' firstSession)"
    by (simp add: setDescription_def firstSession_def startTimer_def)
  show ?thesis
    using stopTimer_validation_failure [OF a b c, of 5000 FetchThrew None] a b c d by simp
qed

text \<open>
  C5 (as the code has it). \<^verbatim>\<open>startBreak\<close> does not look for an open break and returns no
  error: on every in-flight entry, with or without an open break, it appends one new
  open break entry after the existing ones, which it leaves as they are (an open break
  is not overwritten), and records the break kind and start time. The number of open
  breaks grows by one, so an entry can hold more than one open break.
\<close>

theorem startBreak_appends:
  assumes "currentTimeEntry s = Some entry"
  shows "startBreak now dateNow kind s =
           s\<lparr> currentBreakType := Some kind, breakStartTime := Some now,
              currentTimeEntry := Some (entry\<lparr> break_entries := break_entries entry @
                [\<lparr> id_break = ''break-'' @ showNat dateNow, time_entry_id = id_entry entry,
                   break_type = kind, start_time = now, end_time = None,
                   paid = (kind = short_break), notes_break = None \<rparr>] \<rparr>) \<rparr>
         \<and> map_option (length \<circ> openBreaks) (currentTimeEntry (startBreak now dateNow kind s))
             = Some (length (openBreaks entry) + 1)"
  using assms by (simp add: startBreak_def Let_def openBreaks_def)

theorem startBreak_appends_witness:
  "currentTimeEntry breakSession = Some onBreakEntry
   \<and> map_option (length \<circ> openBreaks)
        (currentTimeEntry (startBreak 3000 3000 personal breakSession))
       = Some (length (openBreaks onBreakEntry) + 1)"
  using breakSession_entry
    conjunct2 [OF startBreak_appends [OF breakSession_entry, of 3000 3000 personal]]
  by (rule conjI)

text \<open>
  C5 as stated fails: on a session whose entry already has an open lunch break, a second
  \<^verbatim>\<open>startBreak\<close> is accepted and leaves the entry with two open breaks.
\<close>

theorem startBreak_second_open_break:
  "map_option (length \<circ> openBreaks) (currentTimeEntry breakSession) = Some 1
   \<and> map_option (length \<circ> openBreaks)
        (currentTimeEntry (startBreak 3000 3000 personal breakSession)) = Some 2"
  by code_simp

text \<open>
  C10. With a recorded break start and an in-flight entry whose break list is not empty,
  \<^verbatim>\<open>endBreak\<close> sets the end timestamp of the last break entry, whether or not it had one,
  and clears the current break kind and the break start time; the earlier break entries
  and every other field of the entry and of the session are unchanged. With no recorded
  break start, or no in-flight entry, \<^verbatim>\<open>endBreak\<close> changes nothing.
\<close>

theorem endBreak_sets_last_end_time:
  "(currentTimeEntry s = Some entry \<and> breakStartTime s = Some t \<and> break_entries entry \<noteq> []
      \<longrightarrow> endBreak now s =
          s\<lparr> currentBreakType := None, breakStartTime := None,
             currentTimeEntry := Some (entry\<lparr> break_entries :=
               butlast (break_entries entry)
                 @ [(last (break_entries entry))\<lparr> end_time := Some now \<rparr>] \<rparr>) \<rparr>)
   \<and> (currentTimeEntry s = None \<or> breakStartTime s = None \<longrightarrow> endBreak now s = s)"
proof (intro conjI impI)
  assume h: "currentTimeEntry s = Some entry \<and> breakStartTime s = Some t
               \<and> break_entries entry \<noteq> []"
  then show "endBreak now s =
          s\<lparr> currentBreakType := None, breakStartTime := None,
             currentTimeEntry := Some (entry\<lparr> break_entries :=
               butlast (break_entries entry)
                 @ [(last (break_entries entry))\<lparr> end_time := Some now \<rparr>] \<rparr>) \<rparr>"
    using update_last [of "break_entries entry" "\<lambda>b. b\<lparr> end_time := Some now \<rparr>"]
    by (simp add: endBreak_def Let_def)
next
  assume "currentTimeEntry s = None \<or> breakStartTime s = None"
  then show "endBreak now s = s"
    by (auto simp: endBreak_def split: option.splits)
qed

theorem endBreak_sets_last_end_time_witness:
  "currentTimeEntry breakSession = Some onBreakEntry
   \<and> breakStartTime breakSession = Some 2000
   \<and> break_entries onBreakEntry \<noteq> []
   \<and> endBreak 3000 breakSession =
        breakSession\<lparr> currentBreakType := None, breakStartTime := None,
          currentTimeEntry := Some (onBreakEntry\<lparr> break_entries :=
            butlast (break_entries onBreakEntry)
              @ [(last (break_entries onBreakEntry))\<lparr> end_time := Some 3000 \<rparr>] \<rparr>) \<rparr>
   \<and> currentTimeEntry initialTimerStore = None
   \<and> endBreak 3000 initialTimerStore = initialTimerStore"
proof -
  have ne: "break_entries onBreakEntry \<noteq> []" by (simp add: onBreakEntry_def)
  have idle: "currentTimeEntry initialTimerStore = None" by (simp add: initialTimerStore_def)
  show ?thesis
    using endBreak_sets_last_end_time [of breakSession onBreakEntry 2000 3000]
      endBreak_sets_last_end_time [of initialTimerStore onBreakEntry 2000 3000]
      breakSession_entry breakSession_start ne idle
    by simp
qed

section \<open>Claims about the time entries store\<close>




text \<open>
  C7. The specification asks that an edit of a provisional id, the ids minted by
  manual-entry creation on remote failure included, sends no request and does not depend
  on the remote service. The entry created offline from \<open>minuteForm\<close> has the id
  \<^verbatim>\<open>manual-5\<close>, which \<open>isLocalEntry\<close> does not recognise: editing it sends one request,
  and the stored description is the patch's when the request fails and the server's
  when it succeeds.
\<close>

theorem edit_manual_entry_depends_on_remote:
  "map id_entry (timeEntries offlineStore) = [''manual-5'']
   \<and> isLocalEntry ''manual-5'' = False
   \<and> requests (editTimeEntry ''manual-5'' editedPatch 9 FetchThrew offlineStore offlineCache) = 1
   \<and> requests (editTimeEntry ''manual-5'' editedPatch 9 (ResponseOk (entryAt ''manual-5'' 0 0))
                  offlineStore offlineCache) = 1
   \<and> map description
        (timeEntries (store (editTimeEntry ''manual-5'' editedPatch 9 FetchThrew
                               offlineStore offlineCache))) = [Some ''edited'']
   \<and> map description
        (timeEntries (store (editTimeEntry ''manual-5'' editedPatch 9
                               (ResponseOk (entryAt ''manual-5'' 0 0))
                               offlineStore offlineCache))) = [Some ''work'']"
  by code_simp




text \<open>
  C9. After every non-empty sequence of \<^verbatim>\<open>createManualEntry\<close> calls, whatever the cached
  list held before and whatever the remote service answered, the cached list is the
  entries the calls returned, latest first, followed by the earlier content, cut to
  100 entries: it holds at most 100 entries and loses the oldest first. After 101 calls
  it holds exactly the entries of the last 100 calls, latest first.
\<close>

theorem createManualEntries_cache_capped:
  assumes "calls \<noteq> []"
  shows "\<exists>c. snd (snd (createManualEntries parseLocal calls s storage)) = Some c
           \<and> length c \<le> 100
           \<and> c = take 100 (rev (returned (fst (createManualEntries parseLocal calls s storage)))
                             @ parseStored storage)
           \<and> length (returned (fst (createManualEntries parseLocal calls s storage)))
               = length calls
           \<and> (length calls = 101 \<longrightarrow>
                 c = rev (drop 1 (returned (fst (createManualEntries parseLocal calls s storage))))
                 \<and> length c = 100)"
proof -
  let ?created = "returned (fst (createManualEntries parseLocal calls s storage))"
  have st: "snd (snd (createManualEntries parseLocal calls s storage))
              = Some (take 100 (rev ?created @ parseStored storage))"
    and len: "length ?created = length calls"
    using createManualEntries_stored [of parseLocal calls s storage] assms by simp_all
  have "length calls = 101 \<Longrightarrow>
          take 100 (rev ?created @ parseStored storage) = rev (drop 1 ?created)"
    using len by (simp add: take_rev)
  with st len show ?thesis by auto
qed

theorem createManualEntries_cache_capped_witness:
  "replicate 101 minuteCall \<noteq> []
   \<and> length (replicate 101 minuteCall) = 101
   \<and> (\<exists>c. snd (snd (createManualEntries utcZone (replicate 101 minuteCall) initialStore None))
            = Some c
          \<and> length c = 100
          \<and> c = rev (drop 1 (returned (fst (createManualEntries utcZone
                     (replicate 101 minuteCall) initialStore None)))))"
proof -
  have ne: "replicate 101 minuteCall \<noteq> []" by simp
  have len: "length (replicate 101 minuteCall) = 101" by (rule length_replicate)
  from createManualEntries_cache_capped [OF ne, of utcZone initialStore None] len
  show ?thesis using ne by blast
qed

end
